theory Spec2Isabelle
  imports Main "HOL-Library.Sublist"
begin

chapter \<open>The model\<close>

section \<open>JavaScript values\<close>

text \<open>
  Objects are heap addresses, compared by identity. Numbers are restricted to \<open>NaN\<close>,
  the two infinities and the signed integers (sign \<open>True\<close> is negative), which keeps
  \<open>+0\<close> = \<open>Fin False 0\<close> and \<open>-0\<close> = \<open>Fin True 0\<close> apart; every number has one
  representation, so \<open>Object.is\<close> on these values is equality of the representations.
  An integer of any size stands for itself: fractions and the rounding of doubles above
  \<open>2^53\<close> are outside the model. Property keys are strings (no symbols).
\<close>

type_synonym addr = nat
type_synonym eid = nat
type_synonym did = nat
type_synonym sid = nat

datatype jsnum = NaN | Inf bool | Fin bool nat

datatype jsval = Undefined | Null | Bool bool | Num jsnum | Str string | Obj addr


text \<open>
  \<open>===\<close> and \<open>Object.is\<close>. For two numbers, strict equality makes \<open>NaN\<close> differ
  from everything and the two zeros equal; \<open>Object.is\<close> (SameValue) makes \<open>NaN\<close> the
  same as \<open>NaN\<close> and keeps the zeros apart. On other values both compare type and
  value, objects by identity.
\<close>

fun strict_eq :: "jsval \<Rightarrow> jsval \<Rightarrow> bool" where
  "strict_eq (Num a) (Num b) =
     (a \<noteq> NaN \<and> b \<noteq> NaN \<and>
      (a = b \<or> (a = Fin False 0 \<and> b = Fin True 0) \<or> (a = Fin True 0 \<and> b = Fin False 0)))"
| "strict_eq a b = (a = b)"

fun object_is :: "jsval \<Rightarrow> jsval \<Rightarrow> bool" where
  "object_is (Num a) (Num b) =
     (if a = NaN \<and> b = NaN then True
      else if (a = Fin False 0 \<and> b = Fin True 0) \<or> (a = Fin True 0 \<and> b = Fin False 0) then False
      else strict_eq (Num a) (Num b))"
| "object_is a b = strict_eq a b"

definition hasChanged :: "jsval \<Rightarrow> jsval \<Rightarrow> bool" where
  "hasChanged value oldValue = (\<not> object_is value oldValue)"

datatype exn = TypeError | RangeError | Thrown jsval

text \<open>
  What a call of a runtime function does besides changing the state, in order: each
  effect it hands to \<open>triggerEffect\<close>, each call it makes of user code (a scheduler,
  the body of an effect, the setter of a computed), and each \<open>console.warn\<close>. The
  calls that user code makes in turn belong to what that code does, not to the list.
\<close>

datatype event = Triggered eid | Scheduled eid | Ran eid | SetterCalled addr | Warned string

section \<open>Heap and runtime state\<close>

text \<open>
  The objects the reactive core distinguishes. A plain object carries what
  \<open>toRawType\<close>, \<open>Object.isExtensible\<close> and \<open>markRaw\<close> look at, and its own
  properties; prototypes are not modelled, and the reserved keys \<open>__v_raw\<close>,
  \<open>__v_isReactive\<close>, \<open>__v_isReadonly\<close>, \<open>__v_isShallow\<close>, \<open>__v_isRef\<close> are never
  own properties of a plain object (\<open>__v_skip\<close>, which only \<open>markRaw\<close> defines, is the
  flag \<open>skip\<close>). A proxy is the pair of its target and the handler set it was made
  with. \<open>RefImpl\<close> and \<open>ComputedRefImpl\<close> instances are cells of their own, with the
  fields of the classes.
\<close>

datatype rawtype = TObject | TArray | TMap | TSet | TWeakMap | TWeakSet | TOther

datatype variant = Reactive | ShallowReactive | Readonly | ShallowReadonly

record plain =
  rawType :: rawtype
  extensible :: bool
  skip :: bool
  props :: "string \<Rightarrow> jsval option"

record refimpl =
  r_isShallow :: bool
  r_dep :: "did option"
  r_rawValue :: jsval
  r_value :: jsval

record computedimpl =
  c_dep :: "did option"
  c_isReadonly :: bool
  c_dirty :: bool
  c_cacheable :: bool
  c_value :: jsval
  c_effect :: eid

datatype cell =
    PlainObj plain
  | ProxyObj addr variant
  | RefObj refimpl
  | ComputedObj computedimpl

text \<open>The part of a \<open>ReactiveEffect\<close> the runtime assigns after construction.\<close>

record eff_dyn =
  active :: bool
  parent :: "eid option"
  deps :: "did list"

record scope =
  sc_active :: bool
  sc_effects :: "eid list"

text \<open>
  The module-level variables. A dependency set (\<open>createDep\<close>) is an insertion-ordered
  list without duplicates, stored under its identity; \<open>targetMap\<close> maps a target to
  its \<open>depsMap\<close>, an insertion-ordered association list from keys to dependency sets.
\<close>

record rt =
  activeEffect :: "eid option"
  shouldTrack :: bool
  effs :: "eid \<Rightarrow> eff_dyn"
  next_eff :: eid
  activeEffectScope :: "sid option"
  scopes :: "sid \<Rightarrow> scope"
  heap :: "addr \<Rightarrow> cell option"
  next_addr :: addr
  dep_sets :: "did \<Rightarrow> eid list"
  next_dep :: did
  targetMap :: "addr \<Rightarrow> (string \<times> did) list option"
  reactiveMap :: "addr \<Rightarrow> addr option"
  shallowReactiveMap :: "addr \<Rightarrow> addr option"
  readonlyMap :: "addr \<Rightarrow> addr option"
  shallowReadonlyMap :: "addr \<Rightarrow> addr option"

text \<open>
  A call returns a value or throws, leaves a state, and has made the listed invocations;
  \<open>None\<close> is a call that does not return, or, where a definition says so, a call on
  values the model does not cover.
\<close>

type_synonym 'a res = "((exn + 'a) \<times> rt \<times> event list) option"

definition ret :: "'a \<Rightarrow> rt \<Rightarrow> 'a res" where
  "ret a s = Some (Inr a, s, [])"

definition throw :: "exn \<Rightarrow> rt \<Rightarrow> 'a res" where
  "throw e s = Some (Inl e, s, [])"

definition emit :: "event \<Rightarrow> rt \<Rightarrow> unit res" where
  "emit ev s = Some (Inr (), s, [ev])"

definition bind :: "(rt \<Rightarrow> 'a res) \<Rightarrow> ('a \<Rightarrow> rt \<Rightarrow> 'b res) \<Rightarrow> rt \<Rightarrow> 'b res" where
  "bind m f s =
     (case m s of
        None \<Rightarrow> None
      | Some (Inl e, s1, t1) \<Rightarrow> Some (Inl e, s1, t1)
      | Some (Inr a, s1, t1) \<Rightarrow>
          (case f a s1 of
             None \<Rightarrow> None
           | Some (r, s2, t2) \<Rightarrow> Some (r, s2, t1 @ t2)))"

text \<open>
  The part of a \<open>ReactiveEffect\<close> fixed when it is made: the body \<open>fn\<close>, the
  \<open>scheduler\<close>, and the fields \<open>computed\<close> and \<open>allowRecurse\<close>. User code is the
  function it denotes on the runtime state: it returns or throws and leaves a state, or
  does not return.
\<close>

type_synonym 'a user = "rt \<Rightarrow> ((exn + 'a) \<times> rt) option"

record eff_static =
  fn :: "jsval user"
  scheduler :: "unit user option"
  computed :: bool
  allowRecurse :: bool

type_synonym env = "eid \<Rightarrow> eff_static"

text \<open>Calling user code from the runtime, recorded as the given event.\<close>

definition call_user :: "event \<Rightarrow> 'a user \<Rightarrow> rt \<Rightarrow> 'a res" where
  "call_user ev f s = (case f s of None \<Rightarrow> None | Some (r, s') \<Rightarrow> Some (r, s', [ev]))"

section \<open>Effects\<close>

text \<open>
  The loop of \<open>run\<close> that walks the \<open>parent\<close> links from \<open>activeEffect\<close> looking
  for the effect itself.
\<close>

partial_function (option) is_ancestor :: "(eid \<Rightarrow> eff_dyn) \<Rightarrow> eid \<Rightarrow> eid option \<Rightarrow> bool option" where
  "is_ancestor tab e p =
     (case p of
        None \<Rightarrow> Some False
      | Some q \<Rightarrow> if q = e then Some True else is_ancestor tab e (parent (tab q)))"

definition set_parent :: "eid \<Rightarrow> eid option \<Rightarrow> rt \<Rightarrow> rt" where
  "set_parent e p s = s\<lparr>effs := (effs s)(e := (effs s e)\<lparr>parent := p\<rparr>)\<rparr>"

text \<open>The \<open>finally\<close> block of \<open>run\<close>.\<close>

definition run_finally :: "eid \<Rightarrow> bool \<Rightarrow> rt \<Rightarrow> rt" where
  "run_finally e lastShouldTrack s =
     set_parent e None (s\<lparr>activeEffect := parent (effs s e), shouldTrack := lastShouldTrack\<rparr>)"

definition run :: "env \<Rightarrow> eid \<Rightarrow> rt \<Rightarrow> jsval res" where
  "run env e s =
     (if \<not> active (effs s e) then call_user (Ran e) (fn (env e)) s
      else
        (case is_ancestor (effs s) e (activeEffect s) of
           None \<Rightarrow> None
         | Some True \<Rightarrow> ret Undefined s
         | Some False \<Rightarrow>
             (case call_user (Ran e) (fn (env e))
                     ((set_parent e (activeEffect s) s)\<lparr>activeEffect := Some e, shouldTrack := True\<rparr>) of
                None \<Rightarrow> None
              | Some (r, s', tr) \<Rightarrow> Some (r, run_finally e (shouldTrack s) s', tr))))"

definition triggerEffect :: "env \<Rightarrow> eid \<Rightarrow> rt \<Rightarrow> unit res" where
  "triggerEffect env e =
     bind (emit (Triggered e)) (\<lambda>_ s.
       if activeEffect s \<noteq> Some e \<or> allowRecurse (env e)
       then (case scheduler (env e) of
               Some sc \<Rightarrow> call_user (Scheduled e) sc s
             | None \<Rightarrow> bind (run env e) (\<lambda>_. ret ()) s)
       else ret () s)"

text \<open>A \<open>for ... of\<close> loop over a snapshot of the effects; a throw leaves the loop.\<close>

fun for_each :: "(eid \<Rightarrow> rt \<Rightarrow> unit res) \<Rightarrow> eid list \<Rightarrow> rt \<Rightarrow> unit res" where
  "for_each f [] = ret ()"
| "for_each f (e # es) = bind (f e) (\<lambda>_. for_each f es)"

definition triggerEffects :: "env \<Rightarrow> eid list \<Rightarrow> rt \<Rightarrow> unit res" where
  "triggerEffects env effects =
     bind (for_each (\<lambda>e. if computed (env e) then triggerEffect env e else ret ()) effects)
       (\<lambda>_. for_each (\<lambda>e. if \<not> computed (env e) then triggerEffect env e else ret ()) effects)"

text \<open>\<open>recordEffectScope\<close> with the default scope \<open>activeEffectScope\<close>.\<close>

definition recordEffectScope :: "eid \<Rightarrow> rt \<Rightarrow> rt" where
  "recordEffectScope e s =
     (case activeEffectScope s of
        None \<Rightarrow> s
      | Some sc \<Rightarrow>
          if sc_active (scopes s sc)
          then s\<lparr>scopes := (scopes s)(sc := (scopes s sc)\<lparr>sc_effects := sc_effects (scopes s sc) @ [e]\<rparr>)\<rparr>
          else s)"

text \<open>\<open>new ReactiveEffect(fn, scheduler)\<close>: the new effect is the next unused identity.\<close>

definition new_ReactiveEffect :: "rt \<Rightarrow> eid \<times> rt" where
  "new_ReactiveEffect s =
     (let e = next_eff s
      in (e, recordEffectScope e
               (s\<lparr>effs := (effs s)(e := \<lparr>active = True, parent = None, deps = []\<rparr>),
                  next_eff := Suc e\<rparr>)))"




text \<open>
  The effect call stack as the runtime keeps it: \<open>activeEffect\<close> and, from there, the
  \<open>parent\<close> links. \<open>chain tab p qs\<close>: from \<open>p\<close> the links of \<open>tab\<close> run through
  the effects \<open>qs\<close>, innermost first, and end.
\<close>

inductive chain :: "(eid \<Rightarrow> eff_dyn) \<Rightarrow> eid option \<Rightarrow> eid list \<Rightarrow> bool" where
  chain_end: "chain tab None []"
| chain_step: "chain tab (parent (tab q)) qs \<Longrightarrow> chain tab (Some q) (q # qs)"


fun bodies_run :: "event list \<Rightarrow> eid list" where
  "bodies_run [] = []"
| "bodies_run (Ran e # tr) = e # bodies_run tr"
| "bodies_run (_ # tr) = bodies_run tr"

text \<open>The state of a freshly loaded module, and small environments for examples.\<close>

definition init_rt :: rt where
  "init_rt =
     \<lparr>activeEffect = None, shouldTrack = True,
      effs = (\<lambda>_. \<lparr>active = True, parent = None, deps = []\<rparr>), next_eff = 0,
      activeEffectScope = None, scopes = (\<lambda>_. \<lparr>sc_active = True, sc_effects = []\<rparr>),
      heap = (\<lambda>_. None), next_addr = 0, dep_sets = (\<lambda>_. []), next_dep = 0,
      targetMap = (\<lambda>_. None), reactiveMap = (\<lambda>_. None), shallowReactiveMap = (\<lambda>_. None),
      readonlyMap = (\<lambda>_. None), shallowReadonlyMap = (\<lambda>_. None)\<rparr>"

definition skip_body :: "jsval user" where
  "skip_body s = Some (Inr Undefined, s)"

definition skip_scheduler :: "unit user" where
  "skip_scheduler s = Some (Inr (), s)"

definition plain_effect :: eff_static where
  "plain_effect = \<lparr>fn = skip_body, scheduler = None, computed = False, allowRecurse = False\<rparr>"

definition computed_effect :: eff_static where
  "computed_effect =
     \<lparr>fn = skip_body, scheduler = Some skip_scheduler, computed = True, allowRecurse = False\<rparr>"

definition example_env :: env where
  "example_env = (\<lambda>_. plain_effect)(0 := computed_effect)"

text \<open>An effect that was stopped while it is the running one.\<close>

definition stopped_rt :: rt where
  "stopped_rt =
     init_rt\<lparr>activeEffect := Some 0,
             effs := (effs init_rt)(0 := \<lparr>active = False, parent = None, deps = []\<rparr>),
             next_eff := 1\<rparr>"

text \<open>An effect running, not stopped.\<close>

definition running_rt :: rt where
  "running_rt = init_rt\<lparr>activeEffect := Some 0, next_eff := 1\<rparr>"



definition const_body :: "jsval \<Rightarrow> jsval user" where
  "const_body v s = Some (Inr v, s)"


section \<open>Reading the flags of a value\<close>

definition is_readonly_variant :: "variant \<Rightarrow> bool" where
  "is_readonly_variant v = (v = Readonly \<or> v = ShallowReadonly)"

definition is_shallow_variant :: "variant \<Rightarrow> bool" where
  "is_shallow_variant v = (v = ShallowReactive \<or> v = ShallowReadonly)"

text \<open>The cache (\<open>proxyMap\<close>) each of the four wrappers passes.\<close>

fun proxyMap :: "variant \<Rightarrow> rt \<Rightarrow> addr \<Rightarrow> addr option" where
  "proxyMap Reactive s = reactiveMap s"
| "proxyMap ShallowReactive s = shallowReactiveMap s"
| "proxyMap Readonly s = readonlyMap s"
| "proxyMap ShallowReadonly s = shallowReadonlyMap s"

text \<open>
  \<open>new Proxy\<close> makes a new object, so the target of a proxy is older than the proxy and
  has a smaller address; a proxy cell that does not is not a proxy the runtime can have
  made, and is read as an object with none of the flags.
\<close>

definition proxy_at :: "rt \<Rightarrow> addr \<Rightarrow> (addr \<times> variant) option" where
  "proxy_at s a =
     (case heap s a of
        Some (ProxyObj t v) \<Rightarrow> if t < a then Some (t, v) else None
      | _ \<Rightarrow> None)"

text \<open>
  \<open>value["__v_raw"]\<close>: the \<open>get\<close> trap answers with the target when the receiver is
  the proxy cached for the target; any other object has no such property.
\<close>

definition raw_target :: "rt \<Rightarrow> addr \<Rightarrow> addr option" where
  "raw_target s a =
     (case proxy_at s a of
        Some (t, v) \<Rightarrow> if proxyMap v s t = Some a then Some t else None
      | None \<Rightarrow> None)"

function toRaw_addr :: "rt \<Rightarrow> addr \<Rightarrow> addr" where
  "toRaw_addr s a = (case raw_target s a of Some t \<Rightarrow> toRaw_addr s t | None \<Rightarrow> a)"
  by pat_completeness auto
termination
  by (relation "measure snd")
    (auto simp: raw_target_def proxy_at_def split: option.splits cell.splits if_splits)

declare toRaw_addr.simps [simp del]

definition toRaw :: "rt \<Rightarrow> jsval \<Rightarrow> jsval" where
  "toRaw s observed = (case observed of Obj a \<Rightarrow> Obj (toRaw_addr s a) | _ \<Rightarrow> observed)"

definition isObject :: "jsval \<Rightarrow> bool" where
  "isObject val = (case val of Obj _ \<Rightarrow> True | _ \<Rightarrow> False)"

definition isReadonly :: "rt \<Rightarrow> jsval \<Rightarrow> bool" where
  "isReadonly s val =
     (case val of
        Obj a \<Rightarrow>
          (case heap s a of
             Some (ComputedObj c) \<Rightarrow> c_isReadonly c
           | _ \<Rightarrow> (case proxy_at s a of Some (t, v) \<Rightarrow> is_readonly_variant v | None \<Rightarrow> False))
      | _ \<Rightarrow> False)"

definition isShallow :: "rt \<Rightarrow> jsval \<Rightarrow> bool" where
  "isShallow s val =
     (case val of
        Obj a \<Rightarrow>
          (case heap s a of
             Some (RefObj r) \<Rightarrow> r_isShallow r
           | _ \<Rightarrow> (case proxy_at s a of Some (t, v) \<Rightarrow> is_shallow_variant v | None \<Rightarrow> False))
      | _ \<Rightarrow> False)"

text \<open>
  \<open>isReactive\<close>: for a read-only value the answer is that of its \<open>__v_raw\<close> (which
  a read-only computed does not have), otherwise the flag \<open>__v_isReactive\<close>.
\<close>

function isReactive_addr :: "rt \<Rightarrow> addr \<Rightarrow> bool" where
  "isReactive_addr s a =
     (case proxy_at s a of
        Some (t, v) \<Rightarrow>
          if is_readonly_variant v
          then (case raw_target s a of Some t' \<Rightarrow> isReactive_addr s t' | None \<Rightarrow> False)
          else True
      | None \<Rightarrow> False)"
  by pat_completeness auto
termination
  by (relation "measure snd")
    (auto simp: raw_target_def proxy_at_def split: option.splits cell.splits if_splits)

declare isReactive_addr.simps [simp del]

definition isReactive :: "rt \<Rightarrow> jsval \<Rightarrow> bool" where
  "isReactive s val = (case val of Obj a \<Rightarrow> isReactive_addr s a | _ \<Rightarrow> False)"

text \<open>
  \<open>isRef\<close>: \<open>__v_isRef\<close> is a field of the two ref classes; through a proxy the
  \<open>get\<close> trap hands the read on to the target (the key is not tracked).
\<close>

function isRef_addr :: "rt \<Rightarrow> addr \<Rightarrow> bool" where
  "isRef_addr s a =
     (case heap s a of
        Some (RefObj r) \<Rightarrow> True
      | Some (ComputedObj c) \<Rightarrow> True
      | _ \<Rightarrow> (case proxy_at s a of Some (t, v) \<Rightarrow> isRef_addr s t | None \<Rightarrow> False))"
  by pat_completeness auto
termination
  by (relation "measure snd")
    (auto simp: proxy_at_def split: option.splits cell.splits if_splits)

declare isRef_addr.simps [simp del]

definition isRef :: "rt \<Rightarrow> jsval \<Rightarrow> bool" where
  "isRef s r = (case r of Obj a \<Rightarrow> isRef_addr s a | _ \<Rightarrow> False)"

section \<open>Dependency registry: track and trigger\<close>

text \<open>\<open>createDep(effects)\<close>: a \<open>Set\<close> built by adding the elements in order.\<close>

definition dep_add :: "eid list \<Rightarrow> eid \<Rightarrow> eid list" where
  "dep_add dep e = (if e \<in> set dep then dep else dep @ [e])"

definition createDep :: "eid list \<Rightarrow> eid list" where
  "createDep effects = foldl dep_add [] effects"

definition trackEffects :: "did \<Rightarrow> rt \<Rightarrow> rt" where
  "trackEffects d s =
     (case activeEffect s of
        None \<Rightarrow> s
      | Some e \<Rightarrow>
          if e \<notin> set (dep_sets s d)
          then s\<lparr>dep_sets := (dep_sets s)(d := dep_sets s d @ [e]),
                 effs := (effs s)(e := (effs s e)\<lparr>deps := deps (effs s e) @ [d]\<rparr>)\<rparr>
          else s)"

definition track :: "addr \<Rightarrow> string \<Rightarrow> rt \<Rightarrow> rt" where
  "track target key s =
     (if shouldTrack s \<and> activeEffect s \<noteq> None
      then
        (let depsMap = (case targetMap s target of None \<Rightarrow> [] | Some m \<Rightarrow> m)
         in case map_of depsMap key of
              Some d \<Rightarrow> trackEffects d s
            | None \<Rightarrow>
                trackEffects (next_dep s)
                  (s\<lparr>targetMap := (targetMap s)(target \<mapsto> depsMap @ [(key, next_dep s)]),
                     dep_sets := (dep_sets s)(next_dep s := []),
                     next_dep := Suc (next_dep s)\<rparr>))
      else s)"

subsection \<open>Keys and numbers\<close>

definition is_digit :: "char \<Rightarrow> bool" where
  "is_digit c = (c \<in> set ''0123456789'')"

definition is_name_char :: "char \<Rightarrow> bool" where
  "is_name_char c = (c \<in> set ''abcdefghijklmnopqrstuvwxyzABCDEFGHIJKLMNOPQRSTUVWXYZ_$'')"

definition nat_of_digits :: "string \<Rightarrow> nat" where
  "nat_of_digits k = foldl (\<lambda>n c. 10 * n + (of_char c - 48)) 0 k"

text \<open>
  \<open>isIntegerKey\<close>: printing \<open>parseInt(key, 10)\<close> gives the key back exactly when the
  key is the decimal numeral of a natural number, without sign or leading zeros.
\<close>

definition isIntegerKey :: "string \<Rightarrow> bool" where
  "isIntegerKey key = (key \<noteq> [] \<and> list_all is_digit key \<and> (key = ''0'' \<or> hd key \<noteq> CHR ''0''))"

text \<open>
  The conversion of a string to a number, on the strings the model covers: the empty
  string is 0, a string of digits is its value, and a string of letters other than
  \<open>Infinity\<close> is \<open>NaN\<close>. The other numeric forms (signs, fractions, exponents,
  white space, prefixes) are outside, \<open>None\<close>.
\<close>

definition string_number :: "string \<Rightarrow> jsnum option" where
  "string_number k =
     (if k = [] then Some (Fin False 0)
      else if list_all is_digit k then Some (Fin False (nat_of_digits k))
      else if list_all is_name_char k \<and> k \<noteq> ''Infinity'' then Some NaN
      else None)"

fun to_number :: "jsval \<Rightarrow> jsnum option" where
  "to_number Undefined = Some NaN"
| "to_number Null = Some (Fin False 0)"
| "to_number (Bool b) = Some (Fin False (if b then 1 else 0))"
| "to_number (Num n) = Some n"
| "to_number (Str t) = string_number t"
| "to_number (Obj _) = None"

fun num_less :: "jsnum \<Rightarrow> jsnum \<Rightarrow> bool" where
  "num_less NaN _ = False"
| "num_less _ NaN = False"
| "num_less (Inf a) (Inf b) = (a \<and> \<not> b)"
| "num_less (Inf a) (Fin _ _) = a"
| "num_less (Fin _ _) (Inf b) = (\<not> b)"
| "num_less (Fin a m) (Fin b n) =
     ((if a then - int m else int m) < (if b then - int n else int n))"

definition num_ge :: "jsnum \<Rightarrow> jsnum \<Rightarrow> bool" where
  "num_ge a b = (a \<noteq> NaN \<and> b \<noteq> NaN \<and> \<not> num_less a b)"

fun str_less :: "string \<Rightarrow> string \<Rightarrow> bool" where
  "str_less [] [] = False"
| "str_less [] (y # ys) = True"
| "str_less (x # xs) [] = False"
| "str_less (x # xs) (y # ys) =
     ((of_char x :: nat) < of_char y \<or> (x = y \<and> str_less xs ys))"

text \<open>
  \<open>key >= newValue\<close> for a string key: two strings compare as strings, otherwise both
  sides as numbers; \<open>None\<close> where the conversion is outside the model.
\<close>

definition js_ge :: "string \<Rightarrow> jsval \<Rightarrow> bool option" where
  "js_ge key newValue =
     (case newValue of
        Str t \<Rightarrow> Some (\<not> str_less key t)
      | _ \<Rightarrow>
          (case (string_number key, to_number newValue) of
             (Some a, Some b) \<Rightarrow> Some (num_ge a b)
           | _ \<Rightarrow> None))"

subsection \<open>trigger\<close>

datatype trigger_type = SetOp | AddOp | DeleteOp | ClearOp

definition rawType_of :: "rt \<Rightarrow> addr \<Rightarrow> rawtype" where
  "rawType_of s a = (case heap s a of Some (PlainObj ob) \<Rightarrow> rawType ob | _ \<Rightarrow> TObject)"

definition isArray :: "rt \<Rightarrow> addr \<Rightarrow> bool" where
  "isArray s a = (rawType_of s a = TArray)"

definition isMap :: "rt \<Rightarrow> addr \<Rightarrow> bool" where
  "isMap s a = (rawType_of s a = TMap)"

text \<open>The \<open>depsMap.forEach\<close> of the \<open>length\<close> case, in the insertion order of the map.\<close>

fun length_deps :: "(string \<times> did) list \<Rightarrow> jsval \<Rightarrow> did option list option" where
  "length_deps [] newValue = Some []"
| "length_deps ((key, dep) # m) newValue =
     (if key = ''length'' then map_option (Cons (Some dep)) (length_deps m newValue)
      else
        (case js_ge key newValue of
           None \<Rightarrow> None
         | Some b \<Rightarrow> map_option (\<lambda>r. if b then Some dep # r else r) (length_deps m newValue)))"

text \<open>
  The first half of \<open>trigger\<close>: the array \<open>deps\<close>, whose entries are dependency sets
  or \<open>undefined\<close> (a key without set).
\<close>

definition trigger_deps ::
  "rt \<Rightarrow> addr \<Rightarrow> trigger_type \<Rightarrow> string option \<Rightarrow> jsval \<Rightarrow> (string \<times> did) list
     \<Rightarrow> did option list option" where
  "trigger_deps s target type key newValue depsMap =
     (if type = ClearOp then Some (map (\<lambda>(k, d). Some d) depsMap)
      else if key = Some ''length'' \<and> isArray s target then length_deps depsMap newValue
      else Some
        ((case key of Some k \<Rightarrow> [map_of depsMap k] | None \<Rightarrow> []) @
         (case type of
            AddOp \<Rightarrow>
              if \<not> isArray s target
              then [map_of depsMap ''''] @ (if isMap s target then [map_of depsMap ''''] else [])
              else if (case key of Some k \<Rightarrow> isIntegerKey k | None \<Rightarrow> False)
                   then [map_of depsMap ''length''] else []
          | DeleteOp \<Rightarrow>
              if \<not> isArray s target
              then [map_of depsMap ''''] @ (if isMap s target then [map_of depsMap ''''] else [])
              else []
          | SetOp \<Rightarrow> if isMap s target then [map_of depsMap ''''] else []
          | ClearOp \<Rightarrow> [])))"

definition trigger ::
  "env \<Rightarrow> addr \<Rightarrow> trigger_type \<Rightarrow> string option \<Rightarrow> jsval \<Rightarrow> rt \<Rightarrow> unit res" where
  "trigger env target type key newValue s =
     (case targetMap s target of
        None \<Rightarrow> ret () s
      | Some depsMap \<Rightarrow>
          (case trigger_deps s target type key newValue depsMap of
             None \<Rightarrow> None
           | Some ds \<Rightarrow>
               if length ds = 1
               then (case hd ds of
                       Some d \<Rightarrow> triggerEffects env (dep_sets s d) s
                     | None \<Rightarrow> ret () s)
               else triggerEffects env
                      (createDep (concat (map (\<lambda>d. case d of Some d' \<Rightarrow> dep_sets s d' | None \<Rightarrow> []) ds)))
                      s))"




section \<open>Wrapping: the four proxy variants\<close>

text \<open>The object behind a chain of proxies.\<close>

function base_addr :: "rt \<Rightarrow> addr \<Rightarrow> addr" where
  "base_addr s a = (case proxy_at s a of Some (t, v) \<Rightarrow> base_addr s t | None \<Rightarrow> a)"
  by pat_completeness auto
termination
  by (relation "measure snd")
    (auto simp: proxy_at_def split: option.splits cell.splits if_splits)

declare base_addr.simps [simp del]

text \<open>
  Reading \<open>value["__v_skip"]\<close> goes through the \<open>get\<close> trap of every proxy on the way
  to the object; the trap of a proxy that is not read-only tracks the key on its target
  after reading from it.
\<close>

function skip_tracked :: "rt \<Rightarrow> addr \<Rightarrow> rt" where
  "skip_tracked s a =
     (case proxy_at s a of
        Some (t, v) \<Rightarrow>
          if is_readonly_variant v then skip_tracked s t
          else track t ''__v_skip'' (skip_tracked s t)
      | None \<Rightarrow> s)"
  by pat_completeness auto
termination
  by (relation "measure snd")
    (auto simp: proxy_at_def split: option.splits cell.splits if_splits)

declare skip_tracked.simps [simp del]

definition targetTypeMap :: "rawtype \<Rightarrow> nat" where
  "targetTypeMap ty =
     (case ty of
        TObject \<Rightarrow> 1 | TArray \<Rightarrow> 1
      | TMap \<Rightarrow> 2 | TSet \<Rightarrow> 2 | TWeakMap \<Rightarrow> 2 | TWeakSet \<Rightarrow> 2
      | TOther \<Rightarrow> 0)"

text \<open>
  \<open>getTargetType\<close>. \<open>Object.isExtensible\<close> and \<open>toRawType\<close> of a proxy are those of
  the object behind it; an instance of one of the ref classes is an extensible
  \<open>Object\<close>.
\<close>

definition getTargetType :: "rt \<Rightarrow> addr \<Rightarrow> nat \<times> rt" where
  "getTargetType s a =
     (let s1 = skip_tracked s a
      in (case heap s (base_addr s a) of
            Some (PlainObj ob) \<Rightarrow>
              if skip ob \<or> \<not> extensible ob then 0 else targetTypeMap (rawType ob)
          | _ \<Rightarrow> targetTypeMap TObject,
          s1))"

fun proxyMap_set :: "variant \<Rightarrow> addr \<Rightarrow> addr \<Rightarrow> rt \<Rightarrow> rt" where
  "proxyMap_set Reactive t p s = s\<lparr>reactiveMap := (reactiveMap s)(t \<mapsto> p)\<rparr>"
| "proxyMap_set ShallowReactive t p s = s\<lparr>shallowReactiveMap := (shallowReactiveMap s)(t \<mapsto> p)\<rparr>"
| "proxyMap_set Readonly t p s = s\<lparr>readonlyMap := (readonlyMap s)(t \<mapsto> p)\<rparr>"
| "proxyMap_set ShallowReadonly t p s = s\<lparr>shallowReadonlyMap := (shallowReadonlyMap s)(t \<mapsto> p)\<rparr>"

text \<open>\<open>target["__v_isReactive"]\<close>, which only the \<open>get\<close> trap of a proxy answers.\<close>

definition flag_isReactive :: "rt \<Rightarrow> addr \<Rightarrow> bool" where
  "flag_isReactive s a =
     (case proxy_at s a of Some (t, v) \<Rightarrow> \<not> is_readonly_variant v | None \<Rightarrow> False)"

text \<open>
  \<open>createReactiveObject\<close>; the variant stands for the handlers and the cache that the
  four wrappers pass together. All four pass \<open>null\<close> for \<open>collectionHandlers\<close>, and
  \<open>new Proxy(target, null)\<close> throws a \<open>TypeError\<close>.
\<close>

definition createReactiveObject :: "jsval \<Rightarrow> bool \<Rightarrow> variant \<Rightarrow> rt \<Rightarrow> jsval res" where
  "createReactiveObject target isReadonly' v s =
     (case target of
        Obj a \<Rightarrow>
          if raw_target s a \<noteq> None \<and> \<not> (isReadonly' \<and> flag_isReactive s a) then ret target s
          else
            (case proxyMap v s a of
               Some existingProxy \<Rightarrow> ret (Obj existingProxy) s
             | None \<Rightarrow>
                 (let (targetType, s1) = getTargetType s a
                  in if targetType = 0 then ret target s1
                     else if targetType = 2 then throw TypeError s1
                     else ret (Obj (next_addr s1))
                            (proxyMap_set v a (next_addr s1)
                               (s1\<lparr>heap := (heap s1)(next_addr s1 \<mapsto> ProxyObj a v),
                                   next_addr := Suc (next_addr s1)\<rparr>))))
      | _ \<Rightarrow> bind (emit (Warned ''value cannot be made reactive'')) (\<lambda>_. ret target) s)"

definition reactive :: "jsval \<Rightarrow> rt \<Rightarrow> jsval res" where
  "reactive target s =
     (if isReadonly s target then ret target s
      else createReactiveObject target False Reactive s)"





definition toReactive :: "jsval \<Rightarrow> rt \<Rightarrow> jsval res" where
  "toReactive val s = (if isObject val then reactive val s else ret val s)"


text \<open>An object \<open>{a: 1}\<close> and a \<open>Map\<close>, for examples.\<close>

definition object_a :: plain where
  "object_a = \<lparr>rawType = TObject, extensible = True, skip = False,
               props = [''a'' \<mapsto> Num (Fin False 1)]\<rparr>"

definition object_rt :: rt where
  "object_rt = init_rt\<lparr>heap := [0 \<mapsto> PlainObj object_a], next_addr := 1\<rparr>"


definition wrapped_rt :: rt where
  "wrapped_rt =
     object_rt\<lparr>heap := (heap object_rt)(1 \<mapsto> ProxyObj 0 Reactive), next_addr := 2,
               reactiveMap := [0 \<mapsto> 1]\<rparr>"

section \<open>Boxed values (refs)\<close>

fun cell_dep :: "cell \<Rightarrow> did option" where
  "cell_dep (RefObj r) = r_dep r"
| "cell_dep (ComputedObj c) = c_dep c"
| "cell_dep _ = None"

fun cell_set_dep :: "did \<Rightarrow> cell \<Rightarrow> cell" where
  "cell_set_dep d (RefObj r) = RefObj (r\<lparr>r_dep := Some d\<rparr>)"
| "cell_set_dep d (ComputedObj c) = ComputedObj (c\<lparr>c_dep := Some d\<rparr>)"
| "cell_set_dep d c = c"

text \<open>\<open>trackRefValue\<close> and \<open>triggerRefValue\<close>, on an instance of a ref class.\<close>

definition trackRefValue :: "addr \<Rightarrow> rt \<Rightarrow> rt" where
  "trackRefValue ref s =
     (if shouldTrack s \<and> activeEffect s \<noteq> None
      then
        (let a = toRaw_addr s ref
         in case heap s a of
              None \<Rightarrow> s
            | Some c \<Rightarrow>
                (case cell_dep c of
                   Some d \<Rightarrow> trackEffects d s
                 | None \<Rightarrow>
                     trackEffects (next_dep s)
                       (s\<lparr>heap := (heap s)(a \<mapsto> cell_set_dep (next_dep s) c),
                          dep_sets := (dep_sets s)(next_dep s := []),
                          next_dep := Suc (next_dep s)\<rparr>)))
      else s)"

definition triggerRefValue :: "env \<Rightarrow> addr \<Rightarrow> rt \<Rightarrow> unit res" where
  "triggerRefValue env ref s =
     (case heap s (toRaw_addr s ref) of
        None \<Rightarrow> ret () s
      | Some c \<Rightarrow>
          (case cell_dep c of
             Some d \<Rightarrow> triggerEffects env (dep_sets s d) s
           | None \<Rightarrow> ret () s))"

text \<open>
  \<open>new RefImpl(value, shallow)\<close>: the instance is allocated, then the constructor
  assigns the fields; \<open>toReactive\<close> may allocate a proxy after it.
\<close>

definition new_RefImpl :: "jsval \<Rightarrow> bool \<Rightarrow> rt \<Rightarrow> jsval res" where
  "new_RefImpl val shallow s =
     (let a = next_addr s;
          s0 = s\<lparr>heap := (heap s)(a \<mapsto> RefObj \<lparr>r_isShallow = shallow, r_dep = None,
                                               r_rawValue = Undefined, r_value = Undefined\<rparr>),
                 next_addr := Suc a\<rparr>;
          rawValue = (if shallow then val else toRaw s0 val)
      in bind (if shallow then ret val else toReactive val)
           (\<lambda>v s1. ret (Obj a)
                      (s1\<lparr>heap := (heap s1)(a \<mapsto> RefObj \<lparr>r_isShallow = shallow, r_dep = None,
                                                         r_rawValue = rawValue, r_value = v\<rparr>)\<rparr>))
           s0)"

definition createRef :: "jsval \<Rightarrow> bool \<Rightarrow> rt \<Rightarrow> jsval res" where
  "createRef rawValue shallow s =
     (if isRef s rawValue then ret rawValue s else new_RefImpl rawValue shallow s)"

definition ref :: "jsval \<Rightarrow> rt \<Rightarrow> jsval res" where
  "ref val = createRef val False"

definition shallowRef :: "jsval \<Rightarrow> rt \<Rightarrow> jsval res" where
  "shallowRef val = createRef val True"

text \<open>The accessors \<open>value\<close> of \<open>RefImpl\<close>, for the instance at an address.\<close>

definition upd_ref :: "addr \<Rightarrow> (refimpl \<Rightarrow> refimpl) \<Rightarrow> rt \<Rightarrow> rt" where
  "upd_ref a f s =
     (case heap s a of
        Some (RefObj r) \<Rightarrow> s\<lparr>heap := (heap s)(a \<mapsto> RefObj (f r))\<rparr>
      | _ \<Rightarrow> s)"

definition ref_get :: "addr \<Rightarrow> refimpl \<Rightarrow> rt \<Rightarrow> jsval res" where
  "ref_get a r s = ret (r_value r) (trackRefValue a s)"

definition ref_set :: "env \<Rightarrow> addr \<Rightarrow> refimpl \<Rightarrow> jsval \<Rightarrow> rt \<Rightarrow> unit res" where
  "ref_set env a r newVal s =
     (let useDirectValue = (r_isShallow r \<or> isShallow s newVal \<or> isReadonly s newVal);
          newVal' = (if useDirectValue then newVal else toRaw s newVal)
      in if hasChanged newVal' (r_rawValue r)
         then bind (if useDirectValue then ret newVal' else toReactive newVal')
                (\<lambda>v s1. triggerRefValue env a (upd_ref a (\<lambda>r. r\<lparr>r_value := v\<rparr>) s1))
                (upd_ref a (\<lambda>r. r\<lparr>r_rawValue := newVal'\<rparr>) s)
         else ret () s)"

section \<open>Derived values (computed)\<close>

text \<open>
  The setter of a computed: the warning closure \<open>computed\<close> makes for the function
  form, the \<open>set\<close> of the options object, or \<open>undefined\<close> when the options have none.
\<close>

datatype setter = WarnSetter | UserSetter "jsval \<Rightarrow> unit user" | NoSetter

type_synonym setters = "addr \<Rightarrow> setter"

datatype getterOrOptions = GetterFn "jsval user" | Options "jsval user" "(jsval \<Rightarrow> unit user) option"

definition upd_computed :: "addr \<Rightarrow> (computedimpl \<Rightarrow> computedimpl) \<Rightarrow> rt \<Rightarrow> rt" where
  "upd_computed a f s =
     (case heap s a of
        Some (ComputedObj c) \<Rightarrow> s\<lparr>heap := (heap s)(a \<mapsto> ComputedObj (f c))\<rparr>
      | _ \<Rightarrow> s)"

text \<open>
  The scheduler the constructor gives the effect of the computed at address \<open>c\<close>. It
  is a closure: called later, it notifies the effects of the environment of that time.
\<close>

definition computed_scheduler :: "env \<Rightarrow> addr \<Rightarrow> rt \<Rightarrow> unit res" where
  "computed_scheduler env c s =
     (case heap s c of
        Some (ComputedObj co) \<Rightarrow>
          if \<not> c_dirty co
          then triggerRefValue env c (upd_computed c (\<lambda>co. co\<lparr>c_dirty := True\<rparr>) s)
          else ret () s
      | _ \<Rightarrow> ret () s)"

definition as_user :: "(rt \<Rightarrow> 'a res) \<Rightarrow> 'a user" where
  "as_user m s = map_option (\<lambda>(r, s', tr). (r, s')) (m s)"

text \<open>
  \<open>computed(getterOrOptions, debugOptions, isSSR)\<close>, named \<open>computed_ref\<close> here (the
  field \<open>computed\<close> of an effect has the name). \<open>world\<close> is the environment in which
  the scheduler closure will be called.
\<close>

definition computed_ref ::
  "env \<Rightarrow> setters \<Rightarrow> env \<Rightarrow> getterOrOptions \<Rightarrow> bool \<Rightarrow> rt \<Rightarrow> (setters \<times> env \<times> addr) res" where
  "computed_ref world cenv env getterOrOptions isSSR s =
     (let (getter, setter', onlyGetter) =
            (case getterOrOptions of
               GetterFn g \<Rightarrow> (g, WarnSetter, True)
             | Options g st \<Rightarrow> (g, (case st of Some f \<Rightarrow> UserSetter f | None \<Rightarrow> NoSetter), False));
          c = next_addr s;
          (e, s1) = new_ReactiveEffect (s\<lparr>next_addr := Suc c\<rparr>);
          s2 = s1\<lparr>heap := (heap s1)(c \<mapsto> ComputedObj
                      \<lparr>c_dep = None, c_isReadonly = (onlyGetter \<or> setter' = NoSetter),
                       c_dirty = True, c_cacheable = (\<not> isSSR), c_value = Undefined,
                       c_effect = e\<rparr>),
                  effs := (effs s1)(e := (effs s1 e)\<lparr>active := \<not> isSSR\<rparr>)\<rparr>
      in ret (cenv(c := setter'),
              env(e := \<lparr>fn = getter, scheduler = Some (as_user (computed_scheduler world c)),
                        computed = True, allowRecurse = False\<rparr>),
              c) s2)"


definition computed_set :: "setters \<Rightarrow> addr \<Rightarrow> jsval \<Rightarrow> rt \<Rightarrow> unit res" where
  "computed_set cenv c newValue s =
     (case cenv c of
        WarnSetter \<Rightarrow> emit (Warned ''Write operation failed: computed value is readonly'') s
      | UserSetter f \<Rightarrow> call_user (SetterCalled c) (f newValue) s
      | NoSetter \<Rightarrow> throw TypeError s)"

text \<open>A box \<open>ref(1)\<close> at address 0, for examples.\<close>

definition ref_rt :: rt where
  "ref_rt =
     init_rt\<lparr>heap := [0 \<mapsto> RefObj \<lparr>r_isShallow = False, r_dep = None,
                                   r_rawValue = Num (Fin False 1), r_value = Num (Fin False 1)\<rparr>],
             next_addr := 1\<rparr>"

definition no_setters :: setters where
  "no_setters = (\<lambda>_. WarnSetter)"


text \<open>
  A cacheable computed at address 0 with effect 0, not yet read, and one made for
  server-side rendering (\<open>isSSR\<close>) that has been read; the getter returns 7.
\<close>

definition seven :: jsval where
  "seven = Num (Fin False 7)"

definition computed_env :: env where
  "computed_env =
     (\<lambda>_. plain_effect)
       (0 := \<lparr>fn = const_body seven, scheduler = Some skip_scheduler, computed = True,
               allowRecurse = False\<rparr>)"




section \<open>The \<open>set\<close> trap\<close>

definition get_prop :: "plain \<Rightarrow> string \<Rightarrow> jsval" where
  "get_prop ob key = (case props ob key of Some v \<Rightarrow> v | None \<Rightarrow> Undefined)"

definition hasOwn :: "plain \<Rightarrow> string \<Rightarrow> bool" where
  "hasOwn ob key = (props ob key \<noteq> None)"

definition arr_length :: "plain \<Rightarrow> nat" where
  "arr_length ob = (case props ob ''length'' of Some (Num (Fin False n)) \<Rightarrow> n | _ \<Rightarrow> 0)"

text \<open>
  \<open>Reflect.set(target, key, value, receiver)\<close> on a plain object or array whose
  properties are writable data properties, with the proxy of the target as receiver:
  the result of the operation and the object after it. Writing \<open>length\<close> of an array
  throws a \<open>RangeError\<close> unless the value converts to a valid length, and removes the
  elements from the new length on; writing an index from the length on extends the
  length; a new property needs an extensible object. \<open>None\<close> where the conversion of
  the value is outside the model.
\<close>

definition reflect_set :: "plain \<Rightarrow> string \<Rightarrow> jsval \<Rightarrow> (exn + bool \<times> plain) option" where
  "reflect_set ob key val =
     (if rawType ob = TArray \<and> key = ''length''
      then
        (case to_number val of
           None \<Rightarrow> None
         | Some (Fin sign n) \<Rightarrow>
             if (sign \<longrightarrow> n = 0) \<and> n < 2 ^ 32
             then Some (Inr (True,
                    ob\<lparr>props := (\<lambda>k. if k = ''length'' then Some (Num (Fin False n))
                                       else if isIntegerKey k \<and> n \<le> nat_of_digits k then None
                                       else props ob k)\<rparr>))
             else Some (Inl RangeError)
         | Some _ \<Rightarrow> Some (Inl RangeError))
      else if hasOwn ob key then Some (Inr (True, ob\<lparr>props := (props ob)(key \<mapsto> val)\<rparr>))
      else if \<not> extensible ob then Some (Inr (False, ob))
      else if rawType ob = TArray \<and> isIntegerKey key \<and> nat_of_digits key < 2 ^ 32 - 1
              \<and> arr_length ob \<le> nat_of_digits key
      then Some (Inr (True,
             ob\<lparr>props := (props ob)(key \<mapsto> val,
                                      ''length'' \<mapsto> Num (Fin False (Suc (nat_of_digits key))))\<rparr>))
      else Some (Inr (True, ob\<lparr>props := (props ob)(key \<mapsto> val)\<rparr>)))"

text \<open>\<open>oldValue.value = value\<close> for a value that is a ref: the setter of its class.\<close>

definition assign_ref_value :: "env \<Rightarrow> setters \<Rightarrow> jsval \<Rightarrow> jsval \<Rightarrow> rt \<Rightarrow> unit res" where
  "assign_ref_value env cenv r val s =
     (case r of
        Obj a \<Rightarrow>
          (case heap s a of
             Some (RefObj rf) \<Rightarrow> ref_set env a rf val s
           | Some (ComputedObj co) \<Rightarrow> computed_set cenv a val s
           | _ \<Rightarrow> None)
      | _ \<Rightarrow> None)"

text \<open>\<open>hadKey\<close> as the trap computes it.\<close>

definition hadKey :: "plain \<Rightarrow> string \<Rightarrow> bool" where
  "hadKey ob key =
     (if rawType ob = TArray \<and> isIntegerKey key then nat_of_digits key < arr_length ob
      else hasOwn ob key)"

text \<open>
  \<open>createSetter(shallow)\<close>: the trap, for a target that is a plain object or array
  (\<open>None\<close> for another target, whose properties are accessors).
\<close>

definition createSetter ::
  "env \<Rightarrow> setters \<Rightarrow> bool \<Rightarrow> addr \<Rightarrow> string \<Rightarrow> jsval \<Rightarrow> jsval \<Rightarrow> rt \<Rightarrow> bool res" where
  "createSetter env cenv shallow target key val receiver s =
     (case heap s target of
        Some (PlainObj ob) \<Rightarrow>
          (let oldValue = get_prop ob key
           in if isReadonly s oldValue \<and> isRef s oldValue \<and> \<not> isRef s val then ret False s
              else
                (let unwrap = (\<not> shallow \<and> \<not> isShallow s val \<and> \<not> isReadonly s val);
                     oldValue' = (if unwrap then toRaw s oldValue else oldValue);
                     val' = (if unwrap then toRaw s val else val)
                 in if \<not> shallow \<and> \<not> isArray s target \<and> isRef s oldValue' \<and> \<not> isRef s val'
                    then bind (assign_ref_value env cenv oldValue' val') (\<lambda>_. ret True) s
                    else
                      (case reflect_set ob key val' of
                         None \<Rightarrow> None
                       | Some (Inl e) \<Rightarrow> throw e s
                       | Some (Inr (result, ob')) \<Rightarrow>
                           (let s1 = s\<lparr>heap := (heap s)(target \<mapsto> PlainObj ob')\<rparr>
                            in if Obj target = toRaw s1 receiver
                               then if \<not> hadKey ob key
                                    then bind (trigger env target AddOp (Some key) val')
                                           (\<lambda>_. ret result) s1
                                    else if hasChanged val' oldValue'
                                    then bind (trigger env target SetOp (Some key) val')
                                           (\<lambda>_. ret result) s1
                                    else ret result s1
                               else ret result s1))))
      | _ \<Rightarrow> None)"

text \<open>The value and the events of a call, without the state.\<close>

definition outcome :: "'a res \<Rightarrow> ((exn + 'a) \<times> event list) option" where
  "outcome x = map_option (\<lambda>(r, s, tr). (r, tr)) x"

text \<open>
  The object \<open>{a: 1}\<close> wrapped by \<open>reactive\<close>, with effect 1 depending on its keys
  \<open>a\<close> and \<open>b\<close> (it has read both).
\<close>

definition watched_rt :: rt where
  "watched_rt =
     wrapped_rt\<lparr>targetMap := [0 \<mapsto> [(''a'', 0), (''b'', 1)]],
                dep_sets := (\<lambda>_. [])(0 := [1], 1 := [1]), next_dep := 2, next_eff := 2\<rparr>"

definition pos_zero :: jsval where
  "pos_zero = Num (Fin False 0)"

definition neg_zero :: jsval where
  "neg_zero = Num (Fin True 0)"

text \<open>The same with the property \<open>a\<close> holding \<open>v\<close>.\<close>

definition watched_with :: "jsval \<Rightarrow> rt" where
  "watched_with v =
     watched_rt\<lparr>heap := (heap watched_rt)(0 \<mapsto> PlainObj (object_a\<lparr>props := [''a'' \<mapsto> v]\<rparr>))\<rparr>"

text \<open>The value the trap stores: unwrapped unless shallow, or shallow or read-only itself.\<close>

definition stored :: "rt \<Rightarrow> bool \<Rightarrow> jsval \<Rightarrow> jsval" where
  "stored s shallow val =
     (if \<not> shallow \<and> \<not> isShallow s val \<and> \<not> isReadonly s val then toRaw s val else val)"

section \<open>Scheduler: the pre-flush job queue\<close>

text \<open>
  A job is a JavaScript function object carrying optional fields. \<open>ident\<close> is the
  object identity (what \<open>Array.prototype.includes\<close> and \<open>!==\<close> compare), \<open>job_id\<close>
  is the field \<open>job.id\<close> (\<open>None\<close> when it is \<open>null\<close> or \<open>undefined\<close>).
\<close>

record job =
  ident :: nat
  job_id :: "int option"
  job_allowRecurse :: bool
  job_pre :: bool

text \<open>The module-level variables of the scheduler.\<close>

record sched =
  queue :: "job list"
  isFlushing :: bool
  isFlushPending :: bool
  flushIndex :: nat
  currentPreFlushParentJob :: "nat option"

text \<open>\<open>getId\<close>: a job without id counts as \<open>Infinity\<close>, here \<open>None\<close>.\<close>

definition getId :: "job \<Rightarrow> int option" where
  "getId j = job_id j"

text \<open>\<open>middleJobId < id\<close> for a finite \<open>id\<close>: \<open>Infinity < id\<close> is false.\<close>

definition id_less :: "int option \<Rightarrow> int \<Rightarrow> bool" where
  "id_less m i = (case m of None \<Rightarrow> False | Some k \<Rightarrow> k < i)"

text \<open>
  The binary search of \<open>findInsertionIndex\<close>, from \<open>start\<close> to \<open>end\<close>;
  \<open>(start + end) >>> 1\<close> is the half of the sum.
\<close>

function bsearch :: "job list \<Rightarrow> int \<Rightarrow> nat \<Rightarrow> nat \<Rightarrow> nat" where
  "bsearch q i start end' =
     (if start < end'
      then (let middle = (start + end') div 2
            in if id_less (getId (q ! middle)) i
               then bsearch q i (middle + 1) end'
               else bsearch q i start middle)
      else start)"
  by pat_completeness auto
termination
  by (relation "measure (\<lambda>(q, i, start, end'). end' - start)") auto

declare bsearch.simps [simp del]

definition findInsertionIndex :: "sched \<Rightarrow> int \<Rightarrow> nat" where
  "findInsertionIndex s i = bsearch (queue s) i (flushIndex s + 1) (length (queue s))"

text \<open>\<open>queue.includes(job, fromIndex)\<close>: identity search from \<open>fromIndex\<close> on.\<close>

definition includes_from :: "job list \<Rightarrow> job \<Rightarrow> nat \<Rightarrow> bool" where
  "includes_from q j fromIndex = (ident j \<in> set (map ident (drop fromIndex q)))"

text \<open>\<open>queue.splice(i, 0, job)\<close>: the start index is clamped to the length.\<close>

definition splice_in :: "nat \<Rightarrow> job \<Rightarrow> job list \<Rightarrow> job list" where
  "splice_in i j q = take i q @ [j] @ drop i q"

text \<open>
  \<open>queueFlush\<close>: the first request in the idle state marks a flush as pending (the
  flush itself runs at the next microtask and is not part of this call).
\<close>

definition queueFlush :: "sched \<Rightarrow> sched" where
  "queueFlush s =
     (if \<not> isFlushing s \<and> \<not> isFlushPending s then s\<lparr>isFlushPending := True\<rparr> else s)"

definition queueJob :: "job \<Rightarrow> sched \<Rightarrow> sched" where
  "queueJob j s =
     (if (queue s = [] \<or>
          \<not> includes_from (queue s) j
               (if isFlushing s \<and> job_allowRecurse j then flushIndex s + 1 else flushIndex s))
         \<and> Some (ident j) \<noteq> currentPreFlushParentJob s
      then queueFlush
             (case job_id j of
                None \<Rightarrow> s\<lparr>queue := queue s @ [j]\<rparr>
              | Some i \<Rightarrow> s\<lparr>queue := splice_in (findInsertionIndex s i) j (queue s)\<rparr>)
      else s)"

text \<open>The state between flushes: nothing is running and the cursor is at 0.\<close>

definition idle :: "sched \<Rightarrow> bool" where
  "idle s = (\<not> isFlushing s \<and> flushIndex s = 0)"






chapter \<open>Properties\<close>

section \<open>Values\<close>

lemma object_is_iff: "object_is a b \<longleftrightarrow> a = b"
  by (cases a; cases b) auto

section \<open>Effects\<close>

lemma is_ancestor_chain: "chain tab p qs \<Longrightarrow> is_ancestor tab e p = Some (e \<in> set qs)"
proof (induction rule: chain.induct)
  case (chain_end tab)
  show ?case by (simp add: is_ancestor.simps)
next
  case (chain_step tab q qs)
  show ?case
    by (subst is_ancestor.simps) (use chain_step.IH in auto)
qed

lemma bind_Some:
  "bind m f s = Some (r, s', tr) \<Longrightarrow>
     (\<exists>e. m s = Some (Inl e, s', tr) \<and> r = Inl e) \<or>
     (\<exists>a s1 t1 t2. m s = Some (Inr a, s1, t1) \<and> f a s1 = Some (r, s', t2) \<and> tr = t1 @ t2)"
  by (auto simp: bind_def split: option.splits sum.splits prod.splits)


lemma bodies_run_append: "bodies_run (a @ b) = bodies_run a @ bodies_run b"
  by (induction a rule: bodies_run.induct) auto






lemma is_ancestor_None [simp]: "is_ancestor tab e None = Some False"
  by (simp add: is_ancestor.simps)

lemma is_ancestor_Some [simp]:
  "is_ancestor tab e (Some q) = (if q = e then Some True else is_ancestor tab e (parent (tab q)))"
  by (subst is_ancestor.simps) simp



text \<open>
  C4, as the code has it: for an effect that is active (not stopped) and on the running
  chain, \<open>run\<close> returns \<open>undefined\<close> at once, with no invocation and the state
  unchanged, and no notification of it runs its body; a notification of the effect that
  is the running one is skipped altogether unless the effect allows recursion.
\<close>

theorem active_effect_not_reentered:
  assumes "chain (effs s) (activeEffect s) qs" and "e \<in> set qs" and "active (effs s e)"
  shows "run env e s = Some (Inr Undefined, s, []) \<and>
         (activeEffect s = Some e \<and> \<not> allowRecurse (env e) \<longrightarrow>
            triggerEffect env e s = Some (Inr (), s, [Triggered e])) \<and>
         (\<forall>r s' tr. triggerEffect env e s = Some (r, s', tr) \<longrightarrow> e \<notin> set (bodies_run tr))"
proof -
  have anc: "is_ancestor (effs s) e (activeEffect s) = Some True"
    using is_ancestor_chain [OF assms(1), of e] assms(2) by simp
  have run: "run env e s = Some (Inr Undefined, s, [])"
    using assms(3) anc by (simp add: run_def ret_def)
  have skip: "activeEffect s = Some e \<and> \<not> allowRecurse (env e) \<longrightarrow>
            triggerEffect env e s = Some (Inr (), s, [Triggered e])"
    by (simp add: triggerEffect_def bind_def emit_def ret_def)
  have "e \<notin> set (bodies_run tr)" if "triggerEffect env e s = Some (r, s', tr)" for r s' tr
    using that run
    by (auto simp: triggerEffect_def bind_def emit_def ret_def call_user_def
        split: if_splits option.splits)
  with run skip show ?thesis by blast
qed

theorem active_effect_not_reentered_witness:
  "chain (effs running_rt) (activeEffect running_rt) [0] \<and>
   run example_env 0 running_rt = Some (Inr Undefined, running_rt, []) \<and>
   triggerEffect example_env 0 running_rt = Some (Inr (), running_rt, [Triggered 0])"
proof -
  have c: "chain (effs running_rt) (activeEffect running_rt) [0]"
    unfolding running_rt_def init_rt_def
    by (simp, rule chain_step) (simp add: chain_end)
  have a: "active (effs running_rt 0)" "activeEffect running_rt = Some 0"
    "\<not> allowRecurse (example_env 0)"
    by (simp_all add: running_rt_def init_rt_def example_env_def computed_effect_def)
  from active_effect_not_reentered [where e = 0 and env = example_env, OF c _ a(1)] a c
  show ?thesis by simp
qed

text \<open>
  The claim C4 as stated fails for a stopped effect: \<open>run\<close> on an effect that is on
  the running chain (here the running effect itself) calls the body when the effect is
  not active.
\<close>

theorem stopped_effect_reentered:
  "chain (effs stopped_rt) (activeEffect stopped_rt) [0] \<and>
   run example_env 0 stopped_rt = Some (Inr Undefined, stopped_rt, [Ran 0])"
proof -
  have "chain (effs stopped_rt) (activeEffect stopped_rt) [0]"
    unfolding stopped_rt_def init_rt_def
    by (simp, rule chain_step) (simp add: chain_end)
  moreover have "run example_env 0 stopped_rt = Some (Inr Undefined, stopped_rt, [Ran 0])"
    by (simp add: run_def call_user_def stopped_rt_def init_rt_def example_env_def
        computed_effect_def skip_body_def)
  ultimately show ?thesis by simp
qed


lemma recordEffectScope_fields [simp]:
  "effs (recordEffectScope e s) = effs s"
  "activeEffect (recordEffectScope e s) = activeEffect s"
  "shouldTrack (recordEffectScope e s) = shouldTrack s"
  by (simp_all add: recordEffectScope_def split: option.splits)




section \<open>Trigger\<close>


lemma num_ge_nat [simp]: "num_ge (Fin False m) (Fin False n) = (n \<le> m)"
  by (auto simp: num_ge_def)







section \<open>Wrapping\<close>

lemma proxyMap_set_fields [simp]:
  "heap (proxyMap_set v t p s) = heap s"
  "next_addr (proxyMap_set v t p s) = next_addr s"
  "proxyMap v (proxyMap_set v t p s) = (proxyMap v s)(t \<mapsto> p)"
  by (cases v; simp)+










section \<open>Boxed values\<close>

lemma new_RefImpl_isRef:
  assumes "new_RefImpl v sh s = Some (Inr b, s1, tr)"
  shows "isRef s1 b"
proof -
  from assms obtain s' w where "b = Obj (next_addr s)"
    and "s1 = s'\<lparr>heap := (heap s')(next_addr s \<mapsto> RefObj w)\<rparr>"
    unfolding new_RefImpl_def Let_def
    by (auto simp: ret_def dest!: bind_Some)
  then show ?thesis by (simp add: isRef_def isRef_addr.simps)
qed

text \<open>
  C9. For a value that is already a box, \<open>ref\<close> and \<open>shallowRef\<close> return the value
  itself, with the state unchanged and nothing allocated; and whatever \<open>createRef\<close>
  returns is a box, so creating a box from it again returns it.
\<close>

theorem createRef_idempotent_on_refs:
  "(isRef s r \<longrightarrow> ref r s = Some (Inr r, s, []) \<and> shallowRef r s = Some (Inr r, s, [])) \<and>
   (createRef v sh s = Some (Inr b, s1, tr) \<longrightarrow>
      isRef s1 b \<and> ref b s1 = Some (Inr b, s1, []) \<and> shallowRef b s1 = Some (Inr b, s1, []))"
proof -
  have 1: "ref r s = Some (Inr r, s, []) \<and> shallowRef r s = Some (Inr r, s, [])"
    if "isRef s r" for s r
    using that by (simp add: ref_def shallowRef_def createRef_def ret_def)
  have 2: "isRef s1 b" if "createRef v sh s = Some (Inr b, s1, tr)"
    using that
    by (auto simp: createRef_def ret_def split: if_splits dest: new_RefImpl_isRef)
  from 1 [of s r] 1 [of s1 b] 2 show ?thesis by blast
qed

lemma ref_example:
  "ref (Num (Fin False 1)) init_rt = Some (Inr (Obj 0), ref_rt, [])"
  by (simp add: ref_def createRef_def isRef_def new_RefImpl_def toReactive_def isObject_def
      toRaw_def bind_def ret_def ref_rt_def init_rt_def)

theorem createRef_idempotent_on_refs_witness:
  "isRef ref_rt (Obj 0) \<and>
   ref (Obj 0) ref_rt = Some (Inr (Obj 0), ref_rt, []) \<and>
   shallowRef (Obj 0) ref_rt = Some (Inr (Obj 0), ref_rt, [])"
proof -
  have c: "createRef (Num (Fin False 1)) False init_rt = Some (Inr (Obj 0), ref_rt, [])"
    using ref_example by (simp add: ref_def)
  have i: "isRef ref_rt (Obj 0)"
    by (simp add: isRef_def isRef_addr.simps ref_rt_def init_rt_def)
  from createRef_idempotent_on_refs
    [where s = ref_rt and r = "Obj 0" and v = "Num (Fin False 1)" and sh = False and b = "Obj 0"
       and ?s1.0 = ref_rt and tr = "[]"] i
  show ?thesis by simp
qed

section \<open>Derived values: writing\<close>

lemma computed_getter_form_write_warns:
  assumes "computed_ref world cenv env (GetterFn g) isSSR s = Some (Inr (cenv', env', c), s1, tr)"
  shows "computed_set cenv' c v s2
           = Some (Inr (), s2, [Warned ''Write operation failed: computed value is readonly''])"
  using assms
  by (auto simp: computed_ref_def computed_set_def Let_def ret_def emit_def split: prod.splits)

text \<open>
  C7. A computed made from an options object that supplies only \<open>get\<close> has
  \<open>undefined\<close> as its setter: writing its value calls \<open>undefined\<close>, which throws a
  \<open>TypeError\<close> to the caller, and no warning is reported.
\<close>

theorem computed_options_without_set_throws:
  "\<exists>cenv env s1.
     computed_ref example_env no_setters example_env (Options skip_body None) False init_rt
       = Some (Inr (cenv, env, 0), s1, []) \<and>
     computed_set cenv 0 (Num (Fin False 2)) s1 = Some (Inl TypeError, s1, [])"
  by (simp add: computed_ref_def computed_set_def new_ReactiveEffect_def Let_def ret_def
      throw_def init_rt_def)

section \<open>Derived values: laziness\<close>







lemma trackEffects_fields [simp]:
  "heap (trackEffects d s) = heap s"
  "activeEffect (trackEffects d s) = activeEffect s"
  "parent (effs (trackEffects d s) q) = parent (effs s q)"
  "active (effs (trackEffects d s) q) = active (effs s q)"
  by (simp_all add: trackEffects_def split: option.splits)



lemma trackRefValue_fields [simp]:
  "activeEffect (trackRefValue c s) = activeEffect s"
  "parent (effs (trackRefValue c s) q) = parent (effs s q)"
  "active (effs (trackRefValue c s) q) = active (effs s q)"
  by (simp_all add: trackRefValue_def Let_def split: option.splits)


lemma upd_computed_fields [simp]:
  "activeEffect (upd_computed c f s) = activeEffect s"
  "effs (upd_computed c f s) = effs s"
  "shouldTrack (upd_computed c f s) = shouldTrack s"
  by (simp_all add: upd_computed_def split: option.splits cell.splits)
















lemma computed_ssr_example:
  "\<exists>cenv env s1.
     computed_ref computed_env no_setters computed_env (GetterFn (const_body seven)) True init_rt
       = Some (Inr (cenv, env, 0), s1, []) \<and>
     heap s1 0 = Some (ComputedObj \<lparr>c_dep = None, c_isReadonly = True, c_dirty = True,
                          c_cacheable = False, c_value = Undefined, c_effect = 0\<rparr>) \<and>
     \<not> active (effs s1 0)"
  by (simp add: computed_ref_def new_ReactiveEffect_def recordEffectScope_def Let_def ret_def
      init_rt_def)

section \<open>The \<open>set\<close> trap\<close>

lemma same_value_write:
  assumes "heap s target = Some (PlainObj ob)" and "hadKey ob key"
    and "\<not> hasChanged val (get_prop ob key)"
  shows "createSetter env cenv shallow target key val receiver s =
           (case reflect_set ob key (stored s shallow val) of
              None \<Rightarrow> None
            | Some (Inl e) \<Rightarrow> Some (Inl e, s, [])
            | Some (Inr (result, ob')) \<Rightarrow>
                Some (Inr result, s\<lparr>heap := (heap s)(target \<mapsto> PlainObj ob')\<rparr>, []))"
proof -
  from assms(3) have v: "get_prop ob key = val"
    by (simp add: hasChanged_def object_is_iff)
  show ?thesis
    using assms(1,2)
    by (simp add: createSetter_def Let_def v stored_def hasChanged_def object_is_iff ret_def
        throw_def split: option.splits sum.splits prod.splits)
qed

lemma same_value_write_silent:
  assumes "heap s target = Some (PlainObj ob)" and "hadKey ob key"
    and "\<not> hasChanged val (get_prop ob key)"
    and "createSetter env cenv shallow target key val receiver s = Some (r, s', tr)"
  shows "tr = []"
  using assms(4) unfolding same_value_write [OF assms(1-3)]
  by (auto split: option.splits sum.splits prod.splits)

lemma same_value_write_own:
  assumes "heap s target = Some (PlainObj ob)" and "hadKey ob key"
    and "\<not> hasChanged val (get_prop ob key)"
    and "hasOwn ob key" and "\<not> (rawType ob = TArray \<and> key = ''length'')"
  shows "createSetter env cenv shallow target key val receiver s =
           Some (Inr True,
                 s\<lparr>heap := (heap s)(target \<mapsto>
                      PlainObj (ob\<lparr>props := (props ob)(key \<mapsto> stored s shallow val)\<rparr>))\<rparr>,
                 [])"
  unfolding same_value_write [OF assms(1-3)]
  using assms(4,5) by (auto simp: reflect_set_def)

lemma number_flags [simp]:
  "toRaw s (Num n) = Num n" "isRef s (Num n) = False" "isReadonly s (Num n) = False"
  "isShallow s (Num n) = False"
  by (simp_all add: toRaw_def isRef_def isReadonly_def isShallow_def)

lemma changed_number_write:
  assumes "heap s target = Some (PlainObj ob)" and "hadKey ob key"
    and "get_prop ob key = Num a" and "hasChanged (Num b) (Num a)"
    and "hasOwn ob key" and "\<not> (rawType ob = TArray \<and> key = ''length'')"
    and "toRaw (s\<lparr>heap := (heap s)(target \<mapsto>
                   PlainObj (ob\<lparr>props := (props ob)(key \<mapsto> Num b)\<rparr>))\<rparr>) receiver = Obj target"
  shows "createSetter env cenv shallow target key (Num b) receiver s =
           bind (trigger env target SetOp (Some key) (Num b)) (\<lambda>_. ret True)
             (s\<lparr>heap := (heap s)(target \<mapsto>
                   PlainObj (ob\<lparr>props := (props ob)(key \<mapsto> Num b)\<rparr>))\<rparr>)"
proof -
  have rs: "reflect_set ob key (Num b)
              = Some (Inr (True, ob\<lparr>props := (props ob)(key \<mapsto> Num b)\<rparr>))"
    using assms(5,6) by (auto simp: reflect_set_def)
  show ?thesis
    using assms(1-4,7) by (simp add: createSetter_def Let_def rs)
qed

text \<open>
  C1, as the code has it, for a key the target already has (\<open>hadKey\<close>). Setting the
  key to a value that is the same as its current value performs \<open>Reflect.set\<close> and
  nothing else: no effect is triggered, scheduled or run, whatever the outcome; for an
  own property the value is stored and the trap returns true. Setting a number over a
  different number (\<open>-0\<close> over \<open>+0\<close> is one) through the proxy stores it and
  calls \<open>trigger\<close> for the key.
\<close>

theorem same_value_write_never_notifies:
  assumes "heap s target = Some (PlainObj ob)" and "hadKey ob key"
  shows "(\<not> hasChanged val (get_prop ob key) \<longrightarrow>
            createSetter env cenv shallow target key val receiver s =
              (case reflect_set ob key (stored s shallow val) of
                 None \<Rightarrow> None
               | Some (Inl e) \<Rightarrow> Some (Inl e, s, [])
               | Some (Inr (result, ob')) \<Rightarrow>
                   Some (Inr result, s\<lparr>heap := (heap s)(target \<mapsto> PlainObj ob')\<rparr>, [])) \<and>
            (\<forall>r s' tr. createSetter env cenv shallow target key val receiver s = Some (r, s', tr)
                \<longrightarrow> tr = []) \<and>
            (hasOwn ob key \<and> \<not> (rawType ob = TArray \<and> key = ''length'') \<longrightarrow>
               createSetter env cenv shallow target key val receiver s =
                 Some (Inr True,
                       s\<lparr>heap := (heap s)(target \<mapsto>
                            PlainObj (ob\<lparr>props := (props ob)(key \<mapsto> stored s shallow val)\<rparr>))\<rparr>,
                       []))) \<and>
         (get_prop ob key = Num a \<and> hasChanged (Num b) (Num a) \<and> hasOwn ob key
            \<and> \<not> (rawType ob = TArray \<and> key = ''length'')
            \<and> toRaw (s\<lparr>heap := (heap s)(target \<mapsto>
                   PlainObj (ob\<lparr>props := (props ob)(key \<mapsto> Num b)\<rparr>))\<rparr>) receiver = Obj target \<longrightarrow>
            createSetter env cenv shallow target key (Num b) receiver s =
              bind (trigger env target SetOp (Some key) (Num b)) (\<lambda>_. ret True)
                (s\<lparr>heap := (heap s)(target \<mapsto>
                      PlainObj (ob\<lparr>props := (props ob)(key \<mapsto> Num b)\<rparr>))\<rparr>))"
proof (intro conjI impI allI)
  assume "\<not> hasChanged val (get_prop ob key)"
  then show "createSetter env cenv shallow target key val receiver s =
              (case reflect_set ob key (stored s shallow val) of
                 None \<Rightarrow> None
               | Some (Inl e) \<Rightarrow> Some (Inl e, s, [])
               | Some (Inr (result, ob')) \<Rightarrow>
                   Some (Inr result, s\<lparr>heap := (heap s)(target \<mapsto> PlainObj ob')\<rparr>, []))"
    by (rule same_value_write [OF assms])
next
  fix r s' tr
  assume "\<not> hasChanged val (get_prop ob key)"
    "createSetter env cenv shallow target key val receiver s = Some (r, s', tr)"
  then show "tr = []" by (rule same_value_write_silent [OF assms])
next
  assume "\<not> hasChanged val (get_prop ob key)"
    "hasOwn ob key \<and> \<not> (rawType ob = TArray \<and> key = ''length'')"
  then show "createSetter env cenv shallow target key val receiver s =
                 Some (Inr True,
                       s\<lparr>heap := (heap s)(target \<mapsto>
                            PlainObj (ob\<lparr>props := (props ob)(key \<mapsto> stored s shallow val)\<rparr>))\<rparr>,
                       [])"
    using same_value_write_own [OF assms] by blast
next
  assume "get_prop ob key = Num a \<and> hasChanged (Num b) (Num a) \<and> hasOwn ob key
            \<and> \<not> (rawType ob = TArray \<and> key = ''length'')
            \<and> toRaw (s\<lparr>heap := (heap s)(target \<mapsto>
                   PlainObj (ob\<lparr>props := (props ob)(key \<mapsto> Num b)\<rparr>))\<rparr>) receiver = Obj target"
  then show "createSetter env cenv shallow target key (Num b) receiver s =
              bind (trigger env target SetOp (Some key) (Num b)) (\<lambda>_. ret True)
                (s\<lparr>heap := (heap s)(target \<mapsto>
                      PlainObj (ob\<lparr>props := (props ob)(key \<mapsto> Num b)\<rparr>))\<rparr>)"
    using changed_number_write [OF assms] by blast
qed

lemma watched_facts:
  "heap (watched_with v) 0 = Some (PlainObj (object_a\<lparr>props := [''a'' \<mapsto> v]\<rparr>))"
  "hadKey (object_a\<lparr>props := [''a'' \<mapsto> v]\<rparr>) ''a''"
  "hasOwn (object_a\<lparr>props := [''a'' \<mapsto> v]\<rparr>) ''a''"
  "get_prop (object_a\<lparr>props := [''a'' \<mapsto> v]\<rparr>) ''a'' = v"
  "rawType (object_a\<lparr>props := [''a'' \<mapsto> v]\<rparr>) = TObject"
  by (simp_all add: watched_with_def watched_rt_def wrapped_rt_def object_rt_def init_rt_def
      hadKey_def hasOwn_def get_prop_def object_a_def)

lemma watched_update:
  "(watched_with v)\<lparr>heap := (heap (watched_with v))(0 \<mapsto>
       PlainObj (object_a\<lparr>props := [''a'' \<mapsto> w]\<rparr>))\<rparr>
   = watched_with w"
  by (simp add: watched_with_def)

lemma watched_receiver: "toRaw (watched_with v) (Obj 1) = Obj 0"
  by (simp add: toRaw_def toRaw_addr.simps raw_target_def proxy_at_def watched_with_def
      watched_rt_def wrapped_rt_def object_rt_def init_rt_def)

lemma watched_trigger:
  "outcome (bind (trigger example_env 0 SetOp (Some ''a'') v) (\<lambda>_. ret True) (watched_with w))
     = Some (Inr True, [Triggered 1, Ran 1])"
  by (simp add: outcome_def bind_def ret_def emit_def trigger_def trigger_deps_def isArray_def
      isMap_def rawType_of_def triggerEffects_def triggerEffect_def run_def call_user_def
      run_finally_def set_parent_def example_env_def plain_effect_def skip_body_def
      watched_with_def watched_rt_def wrapped_rt_def object_rt_def init_rt_def object_a_def)

theorem same_value_write_never_notifies_witness:
  "heap (watched_with (Num NaN)) 0 = Some (PlainObj (object_a\<lparr>props := [''a'' \<mapsto> Num NaN]\<rparr>)) \<and>
   hadKey (object_a\<lparr>props := [''a'' \<mapsto> Num NaN]\<rparr>) ''a'' \<and>
   \<not> hasChanged (Num NaN) (get_prop (object_a\<lparr>props := [''a'' \<mapsto> Num NaN]\<rparr>) ''a'') \<and>
   createSetter example_env no_setters False 0 ''a'' (Num NaN) (Obj 1) (watched_with (Num NaN))
     = Some (Inr True, watched_with (Num NaN), []) \<and>
   hasChanged neg_zero pos_zero \<and>
   outcome (createSetter example_env no_setters False 0 ''a'' neg_zero (Obj 1) (watched_with pos_zero))
     = Some (Inr True, [Triggered 1, Ran 1])"
proof -
  have nan: "\<not> hasChanged (Num NaN) (get_prop (object_a\<lparr>props := [''a'' \<mapsto> Num NaN]\<rparr>) ''a'')"
    by (simp add: watched_facts hasChanged_def object_is_iff)
  have zero: "hasChanged neg_zero pos_zero"
    by (simp add: hasChanged_def object_is_iff neg_zero_def pos_zero_def)
  have st: "stored (watched_with (Num NaN)) False (Num NaN) = Num NaN"
    by (simp add: stored_def)
  note main = same_value_write_never_notifies [OF watched_facts(1) watched_facts(2)]
  from main [where v1 = "Num NaN" and val = "Num NaN" and env = example_env and cenv = no_setters
      and shallow = False and receiver = "Obj 1"] nan
  have 1: "createSetter example_env no_setters False 0 ''a'' (Num NaN) (Obj 1) (watched_with (Num NaN))
     = Some (Inr True, watched_with (Num NaN), [])"
    by (simp add: watched_facts st watched_update reflect_set_def)
  from main [where v1 = pos_zero and a = "Fin False 0" and b = "Fin True 0" and env = example_env
      and cenv = no_setters and shallow = False and receiver = "Obj 1"] zero
    watched_receiver [of neg_zero] watched_trigger [of neg_zero neg_zero]
  have 2: "outcome (createSetter example_env no_setters False 0 ''a'' neg_zero (Obj 1) (watched_with pos_zero))
     = Some (Inr True, [Triggered 1, Ran 1])"
    by (simp add: watched_facts watched_update neg_zero_def [symmetric] pos_zero_def [symmetric])
  from watched_facts(1,2) nan 1 zero 2 show ?thesis by blast
qed

text \<open>
  The claim C1 as stated, for every key, fails for a key the target does not have:
  writing \<open>undefined\<close> to the absent key \<open>b\<close>, whose current value reads as
  \<open>undefined\<close>, is an addition and triggers the effect that depends on the key.
\<close>

theorem absent_key_write_notifies:
  "heap watched_rt 0 = Some (PlainObj object_a) \<and>
   \<not> hasChanged Undefined (get_prop object_a ''b'') \<and>
   outcome (createSetter example_env no_setters False 0 ''b'' Undefined (Obj 1) watched_rt)
     = Some (Inr True, [Triggered 1, Ran 1])"
  by (simp add: outcome_def createSetter_def Let_def get_prop_def hasChanged_def object_is_iff
      isReadonly_def isRef_def isShallow_def toRaw_def toRaw_addr.simps raw_target_def
      proxy_at_def reflect_set_def hasOwn_def hadKey_def
      bind_def ret_def emit_def trigger_def trigger_deps_def isArray_def
      isMap_def rawType_of_def triggerEffects_def triggerEffect_def run_def call_user_def
      run_finally_def set_parent_def example_env_def plain_effect_def skip_body_def
      createDep_def dep_add_def computed_effect_def watched_rt_def wrapped_rt_def object_rt_def init_rt_def object_a_def)

lemma queueFlush_queue: "queue (queueFlush s) = queue s"
  by (simp add: queueFlush_def)

lemma queueJob_present_unchanged:
  "idle s \<Longrightarrow> ident j \<in> set (map ident (queue s)) \<Longrightarrow> queueJob j s = s"
  by (auto simp: queueJob_def idle_def includes_from_def)

lemma queueJob_keeps_distinct:
  assumes "idle s" and "distinct (map ident (queue s))"
  shows "distinct (map ident (queue (queueJob j s)))"
proof (cases "ident j \<in> set (map ident (queue s))")
  case True
  with assms show ?thesis by (simp add: queueJob_present_unchanged)
next
  case False
  have "distinct (map ident (splice_in n j (queue s)))" for n
  proof -
    have "distinct (map ident (take n (queue s) @ drop n (queue s)))"
      using assms(2) by simp
    moreover have "ident j \<notin> set (map ident (take n (queue s)))"
      "ident j \<notin> set (map ident (drop n (queue s)))"
      using False by (auto dest: in_set_takeD in_set_dropD)
    ultimately show ?thesis
      unfolding splice_in_def by (simp del: append_take_drop_id) 
  qed
  with False assms(2) show ?thesis
    by (auto simp: queueJob_def queueFlush_queue split: option.splits)
qed



end
